theory Spec2Isabelle
  imports Complex_Main
begin

section \<open>stickworks.py: vectors and edges\<close>

text \<open>
  Python floats are read as real numbers throughout: \<open>+\<close>, \<open>*\<close>, \<open>/\<close>, \<open>math.sqrt\<close>,
  \<open>math.sin\<close>, \<open>math.cos\<close> and \<open>math.pi\<close> are the exact operations of \<^typ>\<open>real\<close>.
  Rounding is outside this development.

  A \<open>Vector\<close> wraps \<open>visual.vector(x, y, z)\<close>. Its display attributes (\<open>color\<close>,
  \<open>radius\<close>, \<open>cyl\<close>) are read by \<open>draw\<close> and \<open>erase\<close> only and are left out.
\<close>

record Vector =
  v_x :: real
  v_y :: real
  v_z :: real

text \<open>\<open>Vector.dot\<close>, \<open>__sub__\<close>, \<open>__add__\<close>, \<open>__mul__\<close> and \<open>__neg__\<close>: componentwise,
  each returning a new \<open>Vector\<close>.\<close>

definition Vector_dot :: "Vector \<Rightarrow> Vector \<Rightarrow> real" where
  "Vector_dot self other =
     v_x self * v_x other + v_y self * v_y other + v_z self * v_z other"

definition Vector_sub :: "Vector \<Rightarrow> Vector \<Rightarrow> Vector" where
  "Vector_sub self other =
     \<lparr>v_x = v_x self - v_x other, v_y = v_y self - v_y other, v_z = v_z self - v_z other\<rparr>"

definition Vector_add :: "Vector \<Rightarrow> Vector \<Rightarrow> Vector" where
  "Vector_add self other =
     \<lparr>v_x = v_x self + v_x other, v_y = v_y self + v_y other, v_z = v_z self + v_z other\<rparr>"

definition Vector_mul :: "Vector \<Rightarrow> real \<Rightarrow> Vector" where
  "Vector_mul self scalar =
     \<lparr>v_x = v_x self * scalar, v_y = v_y self * scalar, v_z = v_z self * scalar\<rparr>"

definition Vector_neg :: "Vector \<Rightarrow> Vector" where
  "Vector_neg self = \<lparr>v_x = - v_x self, v_y = - v_y self, v_z = - v_z self\<rparr>"

text \<open>\<open>Vector._length\<close> is \<open>pow(x ** 2 + y ** 2 + z ** 2, 0.5)\<close>. The base is a sum of
  squares, never negative, so the power \<open>0.5\<close> is the square root.\<close>

definition Vector_length :: "Vector \<Rightarrow> real" where
  "Vector_length self = sqrt ((v_x self)\<^sup>2 + (v_y self)\<^sup>2 + (v_z self)\<^sup>2)"

text \<open>An \<open>Edge\<close> holds its two end points. The colour is a display attribute and is
  left out, as for \<open>Vector\<close>.\<close>

record Edge =
  v0 :: Vector
  v1 :: Vector

text \<open>\<open>Edge.__init__\<close> receives arbitrary Python objects and tests both with
  \<open>isinstance(_, Vector)\<close>. An argument is therefore either a \<open>Vector\<close> or some other
  object, of a type \<open>'o\<close> that the model leaves open.\<close>

datatype 'o pyobj = IsVector Vector | NotVector 'o

datatype error = TypeError | ValueError

fun isinstance_Vector :: "'o pyobj \<Rightarrow> bool" where
  "isinstance_Vector (IsVector _) = True"
| "isinstance_Vector (NotVector _) = False"

fun Edge_init :: "'o pyobj \<Rightarrow> 'o pyobj \<Rightarrow> error + Edge" where
  "Edge_init (IsVector p) (IsVector q) = Inr \<lparr>v0 = p, v1 = q\<rparr>"
| "Edge_init _ _ = Inl TypeError"

text \<open>Every call of \<open>Edge(...)\<close> inside the program passes two \<open>Vector\<close>s; there the
  constructor is the plain record.\<close>

definition mk_Edge :: "Vector \<Rightarrow> Vector \<Rightarrow> Edge" where
  "mk_Edge p q = \<lparr>v0 = p, v1 = q\<rparr>"

text \<open>\<open>Edge._length\<close>: \<open>(self.v1 - self.v0).length\<close>.\<close>

definition Edge_length :: "Edge \<Rightarrow> real" where
  "Edge_length self = Vector_length (Vector_sub (v1 self) (v0 self))"

section \<open>bookdemo.py: the fixed book covers\<close>

text \<open>\<open>D = 2\<close>, the spine end points \<open>S0 = Vector((0, math.sqrt(2)/2, 0))\<close> and
  \<open>S1 = -S0\<close>, the cover axis end points \<open>C0 = Vector((1, 0, 0))\<close> and \<open>C1 = -C0\<close>, and
  the edges between them.\<close>

definition D :: real where
  "D = 2"

definition S0 :: Vector where
  "S0 = \<lparr>v_x = 0, v_y = sqrt 2 / 2, v_z = 0\<rparr>"

definition S1 :: Vector where
  "S1 = Vector_neg S0"

definition spine :: Edge where
  "spine = mk_Edge S0 S1"

definition C0 :: Vector where
  "C0 = \<lparr>v_x = 1, v_y = 0, v_z = 0\<rparr>"

definition C1 :: Vector where
  "C1 = Vector_neg C0"

definition axis :: Edge where
  "axis = mk_Edge C0 C1"

definition S0C0 :: Edge where
  "S0C0 = mk_Edge S0 C0"

definition S1C0 :: Edge where
  "S1C0 = mk_Edge S1 C0"

definition S0C1 :: Edge where
  "S0C1 = mk_Edge S0 C1"

definition S1C1 :: Edge where
  "S1C1 = mk_Edge S1 C1"

definition rhomb_length :: real where
  "rhomb_length = Edge_length S0C1"

section \<open>bookdemo.py: the page\<close>

text \<open>\<open>math.radians\<close> converts degrees to radians.\<close>

definition radians :: "real \<Rightarrow> real" where
  "radians deg = deg * pi / 180"

text \<open>A \<open>Page\<close> stores its angle in degrees, its facing and its tip.\<close>

record Page =
  angle :: real
  up :: bool
  tip :: Vector

text \<open>\<open>Page._getVector\<close> reads \<open>self.angle\<close> and \<open>self.up\<close> (and the global
  \<open>axis\<close>); it is called by \<open>__init__\<close> before \<open>self.tip\<close> exists, so the model passes
  the two fields it reads.\<close>

definition getVector :: "real \<Rightarrow> bool \<Rightarrow> Vector" where
  "getVector self_angle self_up =
     (let z = sin (radians self_angle) * Edge_length axis / 2;
          x = cos (radians self_angle) * Edge_length axis / 2;
          z = (if \<not> self_up then - z else z);
          x = (if \<not> self_up then - x else x);
          y = 0
      in \<lparr>v_x = x, v_y = y, v_z = z\<rparr>)"

text \<open>\<open>Page.__init__(angle, up)\<close>; the defaults are \<open>angle = 0\<close> and \<open>up = True\<close>.\<close>

definition Page_init :: "real \<Rightarrow> bool \<Rightarrow> Page" where
  "Page_init a u = \<lparr>angle = a, up = u, tip = getVector a u\<rparr>"

text \<open>\<open>Page.delta_angle(degrees)\<close> mutates the page; the model returns the new page.\<close>

definition delta_angle :: "Page \<Rightarrow> real \<Rightarrow> Page" where
  "delta_angle self degrees =
     (let self = self\<lparr>angle := angle self + degrees\<rparr>
      in self\<lparr>tip := getVector (angle self) (up self)\<rparr>)"

section \<open>bookdemo.py: the tetrahedra\<close>

text \<open>The class \<open>Tetrahedron\<close> comes from the module \<open>tetravolumes\<close>. A tetrahedron is
  the record of the arguments of its constructor: six edge lengths and \<open>pv\<close>.\<close>

record Tetrahedron =
  edge_a :: real
  edge_b :: real
  edge_c :: real
  edge_d :: real
  edge_e :: real
  edge_f :: real
  pv :: real

definition complementary :: "Page \<Rightarrow> Tetrahedron \<times> Tetrahedron" where
  "complementary page =
     (let a = Edge_length (mk_Edge (tip page) S0);
          b = Edge_length (mk_Edge (tip page) C0);
          c = Edge_length (mk_Edge (tip page) S1);
          d = Edge_length S0C0;
          e = Edge_length S1C0;
          f = Edge_length spine;
          t0 = \<lparr>edge_a = a, edge_b = b, edge_c = c, edge_d = d, edge_e = e, edge_f = f,
                pv = D\<rparr>;
          a = Edge_length (mk_Edge (tip page) S0);
          b = Edge_length (mk_Edge (tip page) C1);
          c = Edge_length (mk_Edge (tip page) S1);
          d = Edge_length S0C1;
          e = Edge_length S1C1;
          f = Edge_length spine;
          t1 = \<lparr>edge_a = a, edge_b = b, edge_c = c, edge_d = d, edge_e = e, edge_f = f,
                pv = D\<rparr>
      in (t0, t1))"

text \<open>\<open>math.sqrt\<close> raises \<open>ValueError\<close> on a negative argument.\<close>

definition math_sqrt :: "real \<Rightarrow> error + real" where
  "math_sqrt r = (if r < 0 then Inl ValueError else Inr (sqrt r))"

definition inadvertent :: "Page \<Rightarrow> error + (Vector \<times> Vector \<times> Vector \<times> Vector)" where
  "inadvertent page =
     (let P_len = Edge_length (mk_Edge (tip page) C1);
          Q_len = Edge_length (mk_Edge (tip page) C0);
          QmQ0_len = Q_len / 2;
          PmP1_len = P_len / 2
      in case math_sqrt (rhomb_length\<^sup>2 - PmP1_len\<^sup>2) of
           Inl err \<Rightarrow> Inl err
         | Inr PmQ0_len \<Rightarrow>
             (case math_sqrt (PmQ0_len\<^sup>2 - QmQ0_len\<^sup>2) of
                Inl err \<Rightarrow> Inl err
              | Inr x \<Rightarrow>
                  (let Pm = \<lparr>v_x = - x / 2, v_y = 0, v_z = 0\<rparr>;
                       Qm = \<lparr>v_x = x / 2, v_y = 0, v_z = 0\<rparr>;
                       P0 = Vector_add Pm \<lparr>v_x = 0, v_y = - P_len / 2, v_z = 0\<rparr>;
                       P1 = Vector_add Pm \<lparr>v_x = 0, v_y = P_len / 2, v_z = 0\<rparr>;
                       Q0 = Vector_add Qm \<lparr>v_x = 0, v_y = 0, v_z = Q_len / 2\<rparr>;
                       Q1 = Vector_add Qm \<lparr>v_x = 0, v_y = 0, v_z = - Q_len / 2\<rparr>
                   in Inr (P0, P1, Q0, Q1))))"

section \<open>The volume of a tetrahedron from its six edge lengths\<close>

text \<open>The determinant of a square matrix given as the list of its rows, by expansion
  along the first row.\<close>

definition drop_col :: "nat \<Rightarrow> real list \<Rightarrow> real list" where
  "drop_col j r = take j r @ drop (Suc j) r"

fun det :: "real list list \<Rightarrow> real" where
  "det [] = 1"
| "det (r # rs) =
     sum_list (map (\<lambda>j. (- 1) ^ j * r ! j * det (map (drop_col j) rs)) [0..<length r])"

text \<open>Modelled from the spec: the module \<open>tetravolumes\<close>, which defines the class
  \<open>Tetrahedron\<close> and its volume methods, is not among the sources. The spec (component
  TetrahedronVolume) computes the determinant of the 5 by 5 Cayley-Menger matrix built
  from the six squared edge lengths. The matrix is indexed by the four vertices;
  \<open>dij\<close> is the distance between vertex \<open>i\<close> and vertex \<open>j\<close>.\<close>

definition cayley_menger :: "real \<Rightarrow> real \<Rightarrow> real \<Rightarrow> real \<Rightarrow> real \<Rightarrow> real \<Rightarrow> real" where
  "cayley_menger d01 d02 d03 d12 d13 d23 =
     det [[0, 1, 1, 1, 1],
          [1, 0, d01\<^sup>2, d02\<^sup>2, d03\<^sup>2],
          [1, d01\<^sup>2, 0, d12\<^sup>2, d13\<^sup>2],
          [1, d02\<^sup>2, d12\<^sup>2, 0, d23\<^sup>2],
          [1, d03\<^sup>2, d13\<^sup>2, d23\<^sup>2, 0]]"

datatype volume_error = InvalidTetrahedronError

text \<open>Modelled from the spec: \<open>TetrahedronVolume.compute\<close>, absent from the sources
  with the module \<open>tetravolumes\<close>. The squared volume is the determinant times a
  normalisation constant \<open>k\<close> fixed by the unit mode; a determinant below \<open>- tol\<close> is
  the error \<open>InvalidTetrahedronError\<close>, one within \<open>tol\<close> of zero gives the volume 0.
  The edges are placed in the matrix by their end points as \<open>complementary\<close> passes
  them: vertex 0 is the page tip, \<open>a\<close>, \<open>b\<close>, \<open>c\<close> join it to the vertices 1, 2, 3
  (\<open>S0\<close>, the cover end point, \<open>S1\<close>), \<open>d\<close> joins 1 and 2, \<open>e\<close> joins 2 and 3, and
  \<open>f\<close>, the spine, joins 1 and 3.\<close>

definition TetrahedronVolume_compute :: "real \<Rightarrow> real \<Rightarrow> Tetrahedron \<Rightarrow> volume_error + real" where
  "TetrahedronVolume_compute tol k t =
     (let cm = cayley_menger (edge_a t) (edge_b t) (edge_c t) (edge_d t) (edge_f t) (edge_e t)
      in if cm < - tol then Inl InvalidTetrahedronError
         else if cm \<le> tol then Inr 0
         else Inr (sqrt (k * cm)))"

section \<open>Properties of edges\<close>

lemma Edge_length_sq:
  "(Edge_length (mk_Edge p q))\<^sup>2 =
     (v_x q - v_x p)\<^sup>2 + (v_y q - v_y p)\<^sup>2 + (v_z q - v_z p)\<^sup>2"
  by (simp add: Edge_length_def mk_Edge_def Vector_length_def Vector_sub_def)

lemma Edge_length_nonneg: "0 \<le> Edge_length e"
  by (simp add: Edge_length_def Vector_length_def)

text \<open>
  Claim C10. For every pair of end points the length of the edge is the Euclidean
  distance between them, the square root of the sum of the squared coordinate
  differences. It does not change when the end points are swapped, it is never negative,
  and an edge whose end points coincide has length exactly 0.
\<close>

theorem Edge_length_euclidean:
  "Edge_length (mk_Edge p q) =
       sqrt ((v_x q - v_x p)\<^sup>2 + (v_y q - v_y p)\<^sup>2 + (v_z q - v_z p)\<^sup>2)
   \<and> Edge_length (mk_Edge p q) = Vector_length (Vector_sub q p)
   \<and> Edge_length (mk_Edge p q) = Edge_length (mk_Edge q p)
   \<and> 0 \<le> Edge_length (mk_Edge p q)
   \<and> Edge_length (mk_Edge p p) = 0"
proof -
  have swap: "(a - b)\<^sup>2 = (b - a)\<^sup>2" for a b :: real
    by (rule power2_commute)
  have "Edge_length (mk_Edge p q) = Edge_length (mk_Edge q p)"
    unfolding Edge_length_def mk_Edge_def Vector_length_def Vector_sub_def
    by (simp add: swap [of "v_x q"] swap [of "v_y q"] swap [of "v_z q"])
  then show ?thesis
    by (simp add: Edge_length_def mk_Edge_def Vector_length_def Vector_sub_def)
qed

section \<open>The fixed geometry\<close>

lemma axis_length: "Edge_length axis = 2"
proof -
  have "Edge_length axis = sqrt (2\<^sup>2)"
    unfolding axis_def Edge_length_def mk_Edge_def Vector_length_def Vector_sub_def
    by (simp add: C0_def C1_def Vector_neg_def)
  then show ?thesis by (simp only: real_sqrt_abs abs_numeral)
qed

lemma rhomb_length_sq: "rhomb_length\<^sup>2 = 3 / 2"
  unfolding rhomb_length_def S0C1_def
  by (simp add: Edge_length_sq S0_def C1_def C0_def Vector_neg_def power_divide)

lemma rhomb_length_nonneg: "0 \<le> rhomb_length"
  unfolding rhomb_length_def by (rule Edge_length_nonneg)

lemma cover_edges_sq:
  "(Edge_length S0C0)\<^sup>2 = 3 / 2" "(Edge_length S1C0)\<^sup>2 = 3 / 2"
  "(Edge_length S0C1)\<^sup>2 = 3 / 2" "(Edge_length S1C1)\<^sup>2 = 3 / 2"
  "(Edge_length spine)\<^sup>2 = 2"
  unfolding S0C0_def S1C0_def S0C1_def S1C1_def spine_def
  by (simp_all add: Edge_length_sq S0_def S1_def C1_def C0_def Vector_neg_def power_divide)

section \<open>The tip\<close>

lemma sin_sq: "(sin t)\<^sup>2 = 1 - (cos t)\<^sup>2" for t :: real
  by (simp add: sin_squared_eq)

lemma getVector_up: "getVector a True = \<lparr>v_x = cos (radians a), v_y = 0, v_z = sin (radians a)\<rparr>"
  by (simp add: getVector_def axis_length Let_def)

lemma getVector_down:
  "getVector a False = \<lparr>v_x = - cos (radians a), v_y = 0, v_z = - sin (radians a)\<rparr>"
  by (simp add: getVector_def axis_length Let_def)

lemma tip_C0_sq:
  "(Edge_length (mk_Edge (getVector a u) C0))\<^sup>2 =
     (if u then 2 - 2 * cos (radians a) else 2 + 2 * cos (radians a))"
  by (cases u)
     (simp_all add: Edge_length_sq getVector_up getVector_down C0_def power2_diff power2_sum sin_sq)

lemma tip_C1_sq:
  "(Edge_length (mk_Edge (getVector a u) C1))\<^sup>2 =
     (if u then 2 + 2 * cos (radians a) else 2 - 2 * cos (radians a))"
  by (cases u)
     (simp_all add: Edge_length_sq getVector_up getVector_down C1_def C0_def Vector_neg_def
        power2_diff power2_sum sin_sq)

lemma tip_S0_sq: "(Edge_length (mk_Edge (getVector a u) S0))\<^sup>2 = 3 / 2"
  by (cases u)
     (simp_all add: Edge_length_sq getVector_up getVector_down S0_def power_divide sin_sq)

lemma tip_S1_sq: "(Edge_length (mk_Edge (getVector a u) S1))\<^sup>2 = 3 / 2"
  by (cases u)
     (simp_all add: Edge_length_sq getVector_up getVector_down S1_def S0_def Vector_neg_def
        power_divide sin_sq)

lemma tip_Page_init: "tip (Page_init a u) = getVector a u"
  by (simp add: Page_init_def)

section \<open>Expanding the Cayley-Menger determinant\<close>

lemma det3:
  "det [[a1, a2, a3], [b1, b2, b3], [c1, c2, c3]] =
     a1 * (b2 * c3 - b3 * c2) - a2 * (b1 * c3 - b3 * c1) + a3 * (b1 * c2 - b2 * c1)"
  by (simp add: drop_col_def algebra_simps)

lemma det4:
  "det [[a1, a2, a3, a4], [b1, b2, b3, b4], [c1, c2, c3, c4], [d1, d2, d3, d4]] =
     a1 * det [[b2, b3, b4], [c2, c3, c4], [d2, d3, d4]]
   - a2 * det [[b1, b3, b4], [c1, c3, c4], [d1, d3, d4]]
   + a3 * det [[b1, b2, b4], [c1, c2, c4], [d1, d2, d4]]
   - a4 * det [[b1, b2, b3], [c1, c2, c3], [d1, d2, d3]]"
  apply (simp only: det.simps(2) [of "[a1, a2, a3, a4]"])
  apply (simp add: drop_col_def del: det.simps)
  done

lemma det5:
  "det [[a1, a2, a3, a4, a5], [b1, b2, b3, b4, b5], [c1, c2, c3, c4, c5],
        [d1, d2, d3, d4, d5], [e1, e2, e3, e4, e5]] =
     a1 * det [[b2, b3, b4, b5], [c2, c3, c4, c5], [d2, d3, d4, d5], [e2, e3, e4, e5]]
   - a2 * det [[b1, b3, b4, b5], [c1, c3, c4, c5], [d1, d3, d4, d5], [e1, e3, e4, e5]]
   + a3 * det [[b1, b2, b4, b5], [c1, c2, c4, c5], [d1, d2, d4, d5], [e1, e2, e4, e5]]
   - a4 * det [[b1, b2, b3, b5], [c1, c2, c3, c5], [d1, d2, d3, d5], [e1, e2, e3, e5]]
   + a5 * det [[b1, b2, b3, b4], [c1, c2, c3, c4], [d1, d2, d3, d4], [e1, e2, e3, e4]]"
  apply (simp only: det.simps(2) [of "[a1, a2, a3, a4, a5]"])
  apply (simp add: drop_col_def del: det.simps)
  done

lemma cayley_menger_regular: "cayley_menger 1 1 1 1 1 1 = 4"
  by (simp add: cayley_menger_def det5 det4 det3 del: det.simps)

text \<open>In both tetrahedra of the book the edges \<open>a\<close>, \<open>c\<close>, \<open>d\<close>, \<open>e\<close> have the
  square 3/2 and the spine \<open>f\<close> has the square 2; only \<open>b\<close> moves with the page.\<close>

lemma cayley_menger_book:
  assumes "a\<^sup>2 = 3 / 2" "c\<^sup>2 = 3 / 2" "d\<^sup>2 = 3 / 2" "e\<^sup>2 = 3 / 2" "f\<^sup>2 = 2"
  shows "cayley_menger a b c d f e = 4 * b\<^sup>2 * (4 - b\<^sup>2)"
  unfolding cayley_menger_def det5 det4 det3 assms
  by (simp add: algebra_simps power2_eq_square)

lemma book_trig:
  "4 * (2 - 2 * cos t) * (4 - (2 - 2 * cos t)) = 16 * (sin t)\<^sup>2"
  "4 * (2 + 2 * cos t) * (4 - (2 + 2 * cos t)) = 16 * (sin t)\<^sup>2" for t :: real
  unfolding sin_sq by (simp_all add: algebra_simps power2_eq_square)

lemma cm_t0:
  "cayley_menger (edge_a (fst (complementary (Page_init th u))))
     (edge_b (fst (complementary (Page_init th u))))
     (edge_c (fst (complementary (Page_init th u))))
     (edge_d (fst (complementary (Page_init th u))))
     (edge_f (fst (complementary (Page_init th u))))
     (edge_e (fst (complementary (Page_init th u)))) = 16 * (sin (radians th))\<^sup>2"
  (is "?cm = _")
proof -
  have "?cm = 4 * (Edge_length (mk_Edge (getVector th u) C0))\<^sup>2
                * (4 - (Edge_length (mk_Edge (getVector th u) C0))\<^sup>2)"
    by (simp add: complementary_def Let_def tip_Page_init
        cayley_menger_book [OF tip_S0_sq tip_S1_sq cover_edges_sq(1) cover_edges_sq(2)
          cover_edges_sq(5)])
  also have "\<dots> = 16 * (sin (radians th))\<^sup>2"
    by (cases u) (simp_all only: tip_C0_sq if_True if_False book_trig)
  finally show ?thesis .
qed

lemma cm_t1:
  "cayley_menger (edge_a (snd (complementary (Page_init th u))))
     (edge_b (snd (complementary (Page_init th u))))
     (edge_c (snd (complementary (Page_init th u))))
     (edge_d (snd (complementary (Page_init th u))))
     (edge_f (snd (complementary (Page_init th u))))
     (edge_e (snd (complementary (Page_init th u)))) = 16 * (sin (radians th))\<^sup>2"
  (is "?cm = _")
proof -
  have "?cm = 4 * (Edge_length (mk_Edge (getVector th u) C1))\<^sup>2
                * (4 - (Edge_length (mk_Edge (getVector th u) C1))\<^sup>2)"
    by (simp add: complementary_def Let_def tip_Page_init
        cayley_menger_book [OF tip_S0_sq tip_S1_sq cover_edges_sq(3) cover_edges_sq(4)
          cover_edges_sq(5)])
  also have "\<dots> = 16 * (sin (radians th))\<^sup>2"
    by (cases u) (simp_all only: tip_C1_sq if_True if_False book_trig)
  finally show ?thesis .
qed

section \<open>The two complementary tetrahedra\<close>

text \<open>
  Claim C1. For every angle of the page (any real number of degrees) and both facings,
  the two tetrahedra returned by \<open>complementary\<close>, the one on the cover end point
  \<open>C0\<close> and the one on \<open>C1\<close>, have the same volume: with any normalisation constant
  and any tolerance that is not negative, the volume computation succeeds on both and
  returns the same number. (Both Cayley-Menger determinants are 16 times the squared
  sine of the angle.)
\<close>

theorem complementary_equal_volume:
  assumes "0 \<le> tol"
  shows "\<exists>v. TetrahedronVolume_compute tol k (fst (complementary (Page_init th u))) = Inr v
           \<and> TetrahedronVolume_compute tol k (snd (complementary (Page_init th u))) = Inr v"
proof -
  have "0 \<le> 16 * (sin (radians th))\<^sup>2"
    by simp
  with assms have "\<not> 16 * (sin (radians th))\<^sup>2 < - tol"
    by linarith
  then show ?thesis
    unfolding TetrahedronVolume_compute_def cm_t0 cm_t1 Let_def by simp
qed

theorem complementary_equal_volume_witness:
  "\<exists>v. TetrahedronVolume_compute 0 (1 / 4) (fst (complementary (Page_init 90 True))) = Inr v
       \<and> TetrahedronVolume_compute 0 (1 / 4) (snd (complementary (Page_init 90 True))) = Inr v"
  using complementary_equal_volume [of 0 "1 / 4" 90 True] by simp

text \<open>The data model of the spec describes another placement of the six lengths: \<open>a\<close>,
  \<open>b\<close>, \<open>c\<close> the edges of one face, \<open>d\<close>, \<open>e\<close>, \<open>f\<close> the edges from the fourth vertex,
  with \<open>a\<close> opposite \<open>d\<close>, \<open>b\<close> opposite \<open>e\<close> and \<open>c\<close> opposite \<open>f\<close>. The lengths that
  \<open>complementary\<close> passes do not fit it (\<open>a\<close> and \<open>d\<close> share the end point \<open>S0\<close>), and
  read that way the two determinants differ, for instance at 60 degrees.\<close>

lemma cayley_menger_face_first:
  assumes "a\<^sup>2 = 3 / 2" "c\<^sup>2 = 3 / 2" "d\<^sup>2 = 3 / 2" "e\<^sup>2 = 3 / 2" "f\<^sup>2 = 2"
  shows "cayley_menger d e f c b a = 15 * b\<^sup>2 - 3 * (b\<^sup>2)\<^sup>2 - 3 / 4"
  unfolding cayley_menger_def det5 det4 det3 assms
  by (simp add: algebra_simps power2_eq_square)

lemma face_first_pairing_differs:
  "cayley_menger (edge_d (fst (complementary (Page_init 60 True))))
     (edge_e (fst (complementary (Page_init 60 True))))
     (edge_f (fst (complementary (Page_init 60 True))))
     (edge_c (fst (complementary (Page_init 60 True))))
     (edge_b (fst (complementary (Page_init 60 True))))
     (edge_a (fst (complementary (Page_init 60 True)))) = 45 / 4
   \<and> cayley_menger (edge_d (snd (complementary (Page_init 60 True))))
     (edge_e (snd (complementary (Page_init 60 True))))
     (edge_f (snd (complementary (Page_init 60 True))))
     (edge_c (snd (complementary (Page_init 60 True))))
     (edge_b (snd (complementary (Page_init 60 True))))
     (edge_a (snd (complementary (Page_init 60 True)))) = 69 / 4"
proof -
  have rad: "radians 60 = pi / 3" by (simp add: radians_def)
  have b0: "(Edge_length (mk_Edge (getVector 60 True) C0))\<^sup>2 = 1"
    by (simp add: tip_C0_sq rad cos_60)
  have b1: "(Edge_length (mk_Edge (getVector 60 True) C1))\<^sup>2 = 3"
    by (simp add: tip_C1_sq rad cos_60)
  show ?thesis
    by (simp add: complementary_def Let_def tip_Page_init b0 b1
        cayley_menger_face_first [OF tip_S0_sq tip_S1_sq cover_edges_sq(1) cover_edges_sq(2)
          cover_edges_sq(5)]
        cayley_menger_face_first [OF tip_S0_sq tip_S1_sq cover_edges_sq(3) cover_edges_sq(4)
          cover_edges_sq(5)])
qed

section \<open>The page tip\<close>

text \<open>
  Claim C2. For every angle \<open>th\<close> in degrees the tip computed by \<open>Page._getVector\<close> is
  \<open>(cos (radians th) * axis.length / 2, 0, sin (radians th) * axis.length / 2)\<close> when the
  page faces up, and the same vector with both the x and the z component negated (y
  still 0) when it faces down. The tip therefore always lies in the XZ plane at distance
  \<open>axis.length / 2\<close> from the origin.
\<close>

theorem getVector_semicircle:
  "getVector th True =
     \<lparr>v_x = cos (radians th) * (Edge_length axis / 2), v_y = 0,
      v_z = sin (radians th) * (Edge_length axis / 2)\<rparr>
   \<and> getVector th False =
     \<lparr>v_x = - (cos (radians th) * (Edge_length axis / 2)), v_y = 0,
      v_z = - (sin (radians th) * (Edge_length axis / 2))\<rparr>
   \<and> tip (Page_init th u) = getVector th u
   \<and> v_y (getVector th u) = 0
   \<and> Vector_length (getVector th u) = Edge_length axis / 2"
proof -
  have len: "Vector_length (getVector th u) = Edge_length axis / 2"
    by (cases u) (simp_all add: getVector_up getVector_down Vector_length_def axis_length)
  have y: "v_y (getVector th u) = 0"
    by (cases u) (simp_all add: getVector_up getVector_down)
  show ?thesis
    using len y by (simp add: getVector_def Let_def tip_Page_init)
qed

text \<open>Over the reals the tip of an upward page at 0 degrees is \<open>C0\<close> and at 180 degrees
  is \<open>C1\<close>, since the sine of \<open>pi\<close> is 0. This is a fact about the exact functions only:
  it does not say which of the two equalities survives the rounding of \<open>math.radians\<close>
  and \<open>math.sin\<close>.\<close>

lemma real_tip_at_cover_end_points:
  "tip (Page_init 0 True) = C0 \<and> tip (Page_init 180 True) = C1"
  by (simp add: tip_Page_init getVector_up radians_def C0_def C1_def Vector_neg_def)

section \<open>Turning the page\<close>

lemma delta_angle_simp:
  "delta_angle p dg = \<lparr>angle = angle p + dg, up = up p, tip = getVector (angle p + dg) (up p)\<rparr>"
  by (simp add: delta_angle_def Let_def)

text \<open>
  Claim C6. \<open>delta_angle\<close> is additive: from any page (any angle, any facing),
  \<open>delta_angle a\<close> followed by \<open>delta_angle b\<close> leaves the same tip, and indeed the same
  page, as a single \<open>delta_angle (a + b)\<close>.
\<close>

theorem delta_angle_additive:
  "tip (delta_angle (delta_angle p a) b) = tip (delta_angle p (a + b))
   \<and> delta_angle (delta_angle p a) b = delta_angle p (a + b)
   \<and> tip (delta_angle (delta_angle (Page_init th u) a) b) = tip (delta_angle (Page_init th u) (a + b))"
  by (simp add: delta_angle_simp add.assoc)

text \<open>A run of \<open>delta_angle\<close> calls, as the loops of the program make them, is a left
  fold over the list of increments.\<close>

lemma foldl_delta_angle:
  "foldl delta_angle p ds =
     \<lparr>angle = angle p + sum_list ds, up = up p,
      tip = (if ds = [] then tip p else getVector (angle p + sum_list ds) (up p))\<rparr>"
proof (induction ds arbitrary: p)
  case Nil
  show ?case by simp
next
  case (Cons dg ds)
  have "foldl delta_angle p (dg # ds) = foldl delta_angle (delta_angle p dg) ds"
    by simp
  also have "\<dots> =
     \<lparr>angle = angle (delta_angle p dg) + sum_list ds, up = up (delta_angle p dg),
      tip = (if ds = [] then tip (delta_angle p dg)
             else getVector (angle (delta_angle p dg) + sum_list ds) (up (delta_angle p dg)))\<rparr>"
    by (rule Cons.IH)
  also have "\<dots> =
     \<lparr>angle = angle p + sum_list (dg # ds), up = up p,
      tip = (if dg # ds = [] then tip p else getVector (angle p + sum_list (dg # ds)) (up p))\<rparr>"
    by (simp add: delta_angle_simp add.assoc)
  finally show ?case .
qed

text \<open>
  Claim C8. The stored tip of a page is always \<open>_getVector\<close> of its current angle and
  facing: right after construction, after any single \<open>delta_angle\<close> on any page, and so
  after every run of \<open>delta_angle\<close> calls on a constructed page. \<open>delta_angle\<close> adds its
  argument to the angle and leaves the facing as it was at construction.
\<close>

theorem tip_function_of_angle_and_facing:
  "tip (Page_init a u) = getVector (angle (Page_init a u)) (up (Page_init a u))
   \<and> tip (delta_angle p dg) = getVector (angle (delta_angle p dg)) (up (delta_angle p dg))
   \<and> angle (delta_angle p dg) = angle p + dg
   \<and> up (delta_angle p dg) = up p
   \<and> tip (foldl delta_angle (Page_init a u) ds) =
       getVector (angle (foldl delta_angle (Page_init a u) ds))
         (up (foldl delta_angle (Page_init a u) ds))
   \<and> up (foldl delta_angle (Page_init a u) ds) = u"
  by (simp add: foldl_delta_angle delta_angle_simp) (simp add: Page_init_def)

section \<open>Constructing an edge\<close>

text \<open>
  Claim C9. \<open>Edge.__init__\<close> fails exactly when one of its two arguments is not a
  \<open>Vector\<close>, and the failure is always the same error (Python's \<open>TypeError\<close>, the
  spec's \<open>InvalidEndpointError\<close>); given two \<open>Vector\<close>s it succeeds and returns the edge
  between them.
\<close>

theorem Edge_init_TypeError:
  "isl (Edge_init a b) = (\<not> (isinstance_Vector a \<and> isinstance_Vector b))
   \<and> (Edge_init a b = Inl TypeError) = isl (Edge_init a b)
   \<and> Edge_init (IsVector p) (IsVector q) = Inr (mk_Edge p q)
   \<and> Edge_init (NotVector x) b = Inl TypeError
   \<and> Edge_init a (NotVector y) = Inl TypeError"
  by (cases a; cases b) (simp_all add: mk_Edge_def)

section \<open>The inadvertent tetrahedron\<close>

text \<open>The value of \<open>inadvertent\<close> in closed form: the first radicand is negative only
  if the second would be, so one comparison decides the failure.\<close>

lemma inadvertent_cases:
  "inadvertent page =
     (if rhomb_length\<^sup>2 < (Edge_length (mk_Edge (tip page) C1) / 2)\<^sup>2
                         + (Edge_length (mk_Edge (tip page) C0) / 2)\<^sup>2
      then Inl ValueError
      else Inr
        (\<lparr>v_x = - sqrt (rhomb_length\<^sup>2 - (Edge_length (mk_Edge (tip page) C1) / 2)\<^sup>2
                          - (Edge_length (mk_Edge (tip page) C0) / 2)\<^sup>2) / 2,
           v_y = - Edge_length (mk_Edge (tip page) C1) / 2, v_z = 0\<rparr>,
         \<lparr>v_x = - sqrt (rhomb_length\<^sup>2 - (Edge_length (mk_Edge (tip page) C1) / 2)\<^sup>2
                          - (Edge_length (mk_Edge (tip page) C0) / 2)\<^sup>2) / 2,
           v_y = Edge_length (mk_Edge (tip page) C1) / 2, v_z = 0\<rparr>,
         \<lparr>v_x = sqrt (rhomb_length\<^sup>2 - (Edge_length (mk_Edge (tip page) C1) / 2)\<^sup>2
                          - (Edge_length (mk_Edge (tip page) C0) / 2)\<^sup>2) / 2,
           v_y = 0, v_z = Edge_length (mk_Edge (tip page) C0) / 2\<rparr>,
         \<lparr>v_x = sqrt (rhomb_length\<^sup>2 - (Edge_length (mk_Edge (tip page) C1) / 2)\<^sup>2
                          - (Edge_length (mk_Edge (tip page) C0) / 2)\<^sup>2) / 2,
           v_y = 0, v_z = - Edge_length (mk_Edge (tip page) C0) / 2\<rparr>))"
  (is "_ = (if ?r2 < ?p2 + ?q2 then _ else _)")
proof (cases "?r2 - ?p2 < 0")
  case True
  have "0 \<le> ?q2" by simp
  with True have "?r2 < ?p2 + ?q2" by linarith
  with True show ?thesis
    by (simp add: inadvertent_def math_sqrt_def Let_def)
next
  case False
  then have sq: "(sqrt (?r2 - ?p2))\<^sup>2 = ?r2 - ?p2" by simp
  have iff: "(?r2 - ?p2 - ?q2 < 0) = (?r2 < ?p2 + ?q2)" by linarith
  show ?thesis
    using False iff
    by (simp add: inadvertent_def math_sqrt_def Let_def sq Vector_add_def)
qed


lemma Edge_length_eqI: "0 \<le> l \<Longrightarrow> (Edge_length e)\<^sup>2 = l\<^sup>2 \<Longrightarrow> Edge_length e = l"
  using Edge_length_nonneg [of e] by (simp add: power2_eq_iff_nonneg)

text \<open>For a tip computed by \<open>_getVector\<close> the squared distances to \<open>C0\<close> and \<open>C1\<close>
  add up to 4, by the theorem of Thales on the circle with diameter \<open>C0 C1\<close>.\<close>

lemma tip_distances_sq_sum:
  "(Edge_length (mk_Edge (getVector th u) C0))\<^sup>2
     + (Edge_length (mk_Edge (getVector th u) C1))\<^sup>2 = 4"
  by (simp add: tip_C0_sq tip_C1_sq)

lemma half_distances_sq_sum:
  "(Edge_length (mk_Edge (getVector th u) C1) / 2)\<^sup>2
     + (Edge_length (mk_Edge (getVector th u) C0) / 2)\<^sup>2 = 1"
  using tip_distances_sq_sum [of th u] by (simp add: power_divide)

lemma first_radicand_bounds:
  "1 / 2 \<le> rhomb_length\<^sup>2 - (Edge_length (mk_Edge (getVector th u) C1) / 2)\<^sup>2"
proof -
  have "0 \<le> (Edge_length (mk_Edge (getVector th u) C0) / 2)\<^sup>2" by simp
  then show ?thesis
    using half_distances_sq_sum [of th u] rhomb_length_sq by linarith
qed

lemma inadvertent_Page_init_succeeds: "\<not> isl (inadvertent (Page_init th u))"
  using half_distances_sq_sum [of th u]
  by (simp add: inadvertent_cases tip_Page_init rhomb_length_sq)

text \<open>
  Claim C4. Whenever \<open>inadvertent\<close> succeeds, its four points \<open>P0\<close>, \<open>P1\<close>, \<open>Q0\<close>,
  \<open>Q1\<close> satisfy: the segment \<open>P0 P1\<close> is as long as the distance from the tip to
  \<open>C1\<close>, the segment \<open>Q0 Q1\<close> is as long as the distance from the tip to \<open>C0\<close>, the
  two segments are perpendicular (their direction vectors have dot product 0), and
  each of the four remaining distances \<open>P0 Q0\<close>, \<open>P0 Q1\<close>, \<open>P1 Q0\<close>, \<open>P1 Q1\<close> is
  \<open>rhomb_length\<close>.
\<close>

theorem inadvertent_distances:
  assumes "inadvertent page = Inr (P0, P1, Q0, Q1)"
  shows "Edge_length (mk_Edge P0 P1) = Edge_length (mk_Edge (tip page) C1)
       \<and> Edge_length (mk_Edge Q0 Q1) = Edge_length (mk_Edge (tip page) C0)
       \<and> Vector_dot (Vector_sub P1 P0) (Vector_sub Q1 Q0) = 0
       \<and> Edge_length (mk_Edge P0 Q0) = rhomb_length
       \<and> Edge_length (mk_Edge P0 Q1) = rhomb_length
       \<and> Edge_length (mk_Edge P1 Q0) = rhomb_length
       \<and> Edge_length (mk_Edge P1 Q1) = rhomb_length"
proof -
  define P_len where "P_len = Edge_length (mk_Edge (tip page) C1)"
  define Q_len where "Q_len = Edge_length (mk_Edge (tip page) C0)"
  define x where "x = sqrt (rhomb_length\<^sup>2 - (P_len / 2)\<^sup>2 - (Q_len / 2)\<^sup>2)"
  have ok: "\<not> rhomb_length\<^sup>2 < (P_len / 2)\<^sup>2 + (Q_len / 2)\<^sup>2"
    using assms unfolding P_len_def Q_len_def
    by (subst (asm) inadvertent_cases) (simp split: if_splits)
  have pts: "P0 = \<lparr>v_x = - x / 2, v_y = - P_len / 2, v_z = 0\<rparr>"
            "P1 = \<lparr>v_x = - x / 2, v_y = P_len / 2, v_z = 0\<rparr>"
            "Q0 = \<lparr>v_x = x / 2, v_y = 0, v_z = Q_len / 2\<rparr>"
            "Q1 = \<lparr>v_x = x / 2, v_y = 0, v_z = - Q_len / 2\<rparr>"
    using assms unfolding P_len_def Q_len_def x_def
    by (subst (asm) inadvertent_cases, simp split: if_splits)+
  have x_sq: "x\<^sup>2 = rhomb_length\<^sup>2 - (P_len / 2)\<^sup>2 - (Q_len / 2)\<^sup>2"
    using ok unfolding x_def by simp
  have P_nonneg: "0 \<le> P_len" and Q_nonneg: "0 \<le> Q_len"
    unfolding P_len_def Q_len_def by (rule Edge_length_nonneg)+
  have "Edge_length (mk_Edge P0 P1) = P_len"
    by (rule Edge_length_eqI [OF P_nonneg]) (simp add: Edge_length_sq pts)
  moreover have "Edge_length (mk_Edge Q0 Q1) = Q_len"
    by (rule Edge_length_eqI [OF Q_nonneg]) (simp add: Edge_length_sq pts)
  moreover have "Vector_dot (Vector_sub P1 P0) (Vector_sub Q1 Q0) = 0"
    by (simp add: Vector_dot_def Vector_sub_def pts)
  moreover have "Edge_length (mk_Edge P0 Q0) = rhomb_length"
    by (rule Edge_length_eqI [OF rhomb_length_nonneg])
       (simp add: Edge_length_sq pts x_sq power_divide)
  moreover have "Edge_length (mk_Edge P0 Q1) = rhomb_length"
    by (rule Edge_length_eqI [OF rhomb_length_nonneg])
       (simp add: Edge_length_sq pts x_sq power_divide)
  moreover have "Edge_length (mk_Edge P1 Q0) = rhomb_length"
    by (rule Edge_length_eqI [OF rhomb_length_nonneg])
       (simp add: Edge_length_sq pts x_sq power_divide)
  moreover have "Edge_length (mk_Edge P1 Q1) = rhomb_length"
    by (rule Edge_length_eqI [OF rhomb_length_nonneg])
       (simp add: Edge_length_sq pts x_sq power_divide)
  ultimately show ?thesis
    unfolding P_len_def Q_len_def by simp
qed


theorem inadvertent_distances_witness:
  "inadvertent (Page_init 90 True) =
     Inr (\<lparr>v_x = - sqrt (1 / 2) / 2, v_y = - sqrt 2 / 2, v_z = 0\<rparr>,
          \<lparr>v_x = - sqrt (1 / 2) / 2, v_y = sqrt 2 / 2, v_z = 0\<rparr>,
          \<lparr>v_x = sqrt (1 / 2) / 2, v_y = 0, v_z = sqrt 2 / 2\<rparr>,
          \<lparr>v_x = sqrt (1 / 2) / 2, v_y = 0, v_z = - sqrt 2 / 2\<rparr>)
   \<and> Edge_length (mk_Edge \<lparr>v_x = - sqrt (1 / 2) / 2, v_y = - sqrt 2 / 2, v_z = 0\<rparr>
          \<lparr>v_x = - sqrt (1 / 2) / 2, v_y = sqrt 2 / 2, v_z = 0\<rparr>)
       = Edge_length (mk_Edge (tip (Page_init 90 True)) C1)
   \<and> Edge_length (mk_Edge \<lparr>v_x = - sqrt (1 / 2) / 2, v_y = - sqrt 2 / 2, v_z = 0\<rparr>
          \<lparr>v_x = sqrt (1 / 2) / 2, v_y = 0, v_z = sqrt 2 / 2\<rparr>) = rhomb_length"
proof -
  have rad: "radians 90 = pi / 2" by (simp add: radians_def)
  have P: "Edge_length (mk_Edge (getVector 90 True) C1) = sqrt 2"
    by (rule Edge_length_eqI) (simp_all add: tip_C1_sq rad)
  have Q: "Edge_length (mk_Edge (getVector 90 True) C0) = sqrt 2"
    by (rule Edge_length_eqI) (simp_all add: tip_C0_sq rad)
  have h: "inadvertent (Page_init 90 True) =
     Inr (\<lparr>v_x = - sqrt (1 / 2) / 2, v_y = - sqrt 2 / 2, v_z = 0\<rparr>,
          \<lparr>v_x = - sqrt (1 / 2) / 2, v_y = sqrt 2 / 2, v_z = 0\<rparr>,
          \<lparr>v_x = sqrt (1 / 2) / 2, v_y = 0, v_z = sqrt 2 / 2\<rparr>,
          \<lparr>v_x = sqrt (1 / 2) / 2, v_y = 0, v_z = - sqrt 2 / 2\<rparr>)"
    by (simp add: inadvertent_cases tip_Page_init P Q rhomb_length_sq power_divide)
  show ?thesis
    using inadvertent_distances [OF h] h by simp
qed

text \<open>
  Claim C7. In the fixed geometry of the program (\<open>C0 = (1, 0, 0)\<close>, \<open>C1 = -C0\<close>,
  \<open>axis.length = 2\<close>, \<open>rhomb_length\<close> squared \<open>= 3/2\<close>), for every angle and both
  facings the squared distances from the tip to \<open>C0\<close> and to \<open>C1\<close> add up to
  \<open>axis.length\<close> squared, which is 4. The first radicand inside \<open>inadvertent\<close> is
  positive and the final one is \<open>rhomb_length\<close> squared minus 1, which is 1/2, so
  \<open>inadvertent\<close> succeeds for every angle.
\<close>

theorem inadvertent_radicands:
  "(Edge_length (mk_Edge (tip (Page_init th u)) C0))\<^sup>2
     + (Edge_length (mk_Edge (tip (Page_init th u)) C1))\<^sup>2 = (Edge_length axis)\<^sup>2
   \<and> C0 = \<lparr>v_x = 1, v_y = 0, v_z = 0\<rparr> \<and> C1 = Vector_neg C0
   \<and> Edge_length axis = 2
   \<and> rhomb_length\<^sup>2 = 3 / 2
   \<and> 0 < rhomb_length\<^sup>2 - (Edge_length (mk_Edge (tip (Page_init th u)) C1) / 2)\<^sup>2
   \<and> (sqrt (rhomb_length\<^sup>2 - (Edge_length (mk_Edge (tip (Page_init th u)) C1) / 2)\<^sup>2))\<^sup>2
        - (Edge_length (mk_Edge (tip (Page_init th u)) C0) / 2)\<^sup>2 = rhomb_length\<^sup>2 - 1
   \<and> rhomb_length\<^sup>2 - 1 = 1 / 2
   \<and> (\<exists>r. inadvertent (Page_init th u) = Inr r)"
proof -
  note t = tip_Page_init [of th u]
  have r1: "1 / 2 \<le> rhomb_length\<^sup>2 - (Edge_length (mk_Edge (getVector th u) C1) / 2)\<^sup>2"
    by (rule first_radicand_bounds)
  then have sq: "(sqrt (rhomb_length\<^sup>2 - (Edge_length (mk_Edge (getVector th u) C1) / 2)\<^sup>2))\<^sup>2
      = rhomb_length\<^sup>2 - (Edge_length (mk_Edge (getVector th u) C1) / 2)\<^sup>2"
    by simp
  have c1: "(Edge_length (mk_Edge (tip (Page_init th u)) C0))\<^sup>2
     + (Edge_length (mk_Edge (tip (Page_init th u)) C1))\<^sup>2 = (Edge_length axis)\<^sup>2"
    unfolding t tip_distances_sq_sum axis_length by simp
  have c2: "C0 = \<lparr>v_x = 1, v_y = 0, v_z = 0\<rparr>"
    by (rule C0_def)
  have c3: "C1 = Vector_neg C0"
    by (rule C1_def)
  have c6: "0 < rhomb_length\<^sup>2 - (Edge_length (mk_Edge (tip (Page_init th u)) C1) / 2)\<^sup>2"
    unfolding t using r1 by linarith
  have c7: "(sqrt (rhomb_length\<^sup>2 - (Edge_length (mk_Edge (tip (Page_init th u)) C1) / 2)\<^sup>2))\<^sup>2
        - (Edge_length (mk_Edge (tip (Page_init th u)) C0) / 2)\<^sup>2 = rhomb_length\<^sup>2 - 1"
    unfolding t sq using half_distances_sq_sum [of th u] by linarith
  have c8: "rhomb_length\<^sup>2 - 1 = 1 / 2"
    by (simp add: rhomb_length_sq)
  have c9: "\<exists>r. inadvertent (Page_init th u) = Inr r"
    using inadvertent_Page_init_succeeds [of th u]
    by (cases "inadvertent (Page_init th u)") auto
  show ?thesis
    by (intro conjI) (rule c1 c2 c3 axis_length rhomb_length_sq c6 c7 c8 c9)+
qed

text \<open>The error branch is live for a page record that no constructor produces: a tip
  three units out on the x axis is too far from \<open>C1\<close>.\<close>

lemma inadvertent_error_branch:
  "inadvertent \<lparr>angle = 0, up = True, tip = \<lparr>v_x = 3, v_y = 0, v_z = 0\<rparr>\<rparr> = Inl ValueError"
proof -
  have "(Edge_length (mk_Edge \<lparr>v_x = 3, v_y = 0, v_z = 0\<rparr> C1))\<^sup>2 = 16"
       "(Edge_length (mk_Edge \<lparr>v_x = 3, v_y = 0, v_z = 0\<rparr> C0))\<^sup>2 = 4"
    by (simp_all add: Edge_length_sq C0_def C1_def Vector_neg_def)
  then show ?thesis
    by (simp add: inadvertent_cases rhomb_length_sq power_divide)
qed

text \<open>
  Claim C3, as amended. \<open>inadvertent\<close> fails exactly when its construction needs the
  square root of a negative number, that is when \<open>rhomb_length\<close> squared is less than
  the sum of the squares of half the distance from the tip to \<open>C1\<close> and half the distance
  from the tip to \<open>C0\<close>; the failure is the error value \<open>ValueError\<close> of \<open>math.sqrt\<close>,
  which a caller can handle. In the fixed geometry of the program no angle and no facing
  fails: \<open>inadvertent\<close> succeeds on every constructed page and after every run of
  \<open>delta_angle\<close> calls.
\<close>

theorem inadvertent_never_fails:
  "isl (inadvertent page) =
     (rhomb_length\<^sup>2 < (Edge_length (mk_Edge (tip page) C1) / 2)\<^sup>2
                        + (Edge_length (mk_Edge (tip page) C0) / 2)\<^sup>2)
   \<and> isl (inadvertent page) = (inadvertent page = Inl ValueError)
   \<and> \<not> isl (inadvertent (Page_init th u))
   \<and> \<not> isl (inadvertent (foldl delta_angle (Page_init th u) ds))"
proof -
  have "foldl delta_angle (Page_init th u) ds = Page_init (th + sum_list ds) u"
    by (simp add: foldl_delta_angle) (simp add: Page_init_def)
  then show ?thesis
    by (simp add: inadvertent_Page_init_succeeds) (simp add: inadvertent_cases)
qed

text \<open>Claim C3 as stated says that failing angles exist; there is none.\<close>

theorem inadvertent_failing_angle_counterexample:
  "\<not> (\<exists>th u. inadvertent (Page_init th u) = Inl ValueError)"
  using inadvertent_Page_init_succeeds by (metis sum.disc(1))

end
